theory Spec2Isabelle
  imports Main "HOL-Library.AList"
begin

section \<open>Python values, exceptions and dictionaries\<close>

text \<open>
  The values that travel over the wire and through the bridge are the ones
  \<^verbatim>\<open>json.loads\<close> produces: \<^verbatim>\<open>None\<close>, booleans, integers, strings, lists and
  dictionaries with string keys. Floating-point numbers are left out of the model.
  A dictionary is an association list; lookup takes the first entry of a key, and every
  update goes through \<open>AList.update\<close> and \<open>AList.delete\<close>.
\<close>

datatype json =
    JNull
  | JBool bool
  | JInt int
  | JStr string
  | JList "json list"
  | JDict "(string \<times> json) list"

type_synonym pydict = "(string \<times> json) list"

text \<open>The exception classes that the modelled code can raise or has to catch.\<close>

datatype py_exc =
    JSONDecodeError
  | UnicodeDecodeError
  | AttributeError
  | TypeError
  | RuntimeError
  | CancelledError
  | ImportError

text \<open>Python truth value testing, as \<^verbatim>\<open>if x\<close>, \<^verbatim>\<open>x and y\<close> and \<^verbatim>\<open>not x\<close> use it.\<close>

fun truthy :: "json \<Rightarrow> bool" where
  "truthy JNull = False"
| "truthy (JBool b) = b"
| "truthy (JInt i) = (i \<noteq> 0)"
| "truthy (JStr s) = (s \<noteq> [])"
| "truthy (JList xs) = (xs \<noteq> [])"
| "truthy (JDict d) = (d \<noteq> [])"

text \<open>Lists and dictionaries are unhashable: \<^verbatim>\<open>x in some_dict\<close> raises TypeError on them.\<close>

fun hashable :: "json \<Rightarrow> bool" where
  "hashable (JList xs) = False"
| "hashable (JDict d) = False"
| "hashable v = True"

text \<open>\<^verbatim>\<open>d.get(k)\<close> and \<^verbatim>\<open>d.get(k, default)\<close> on a dictionary.\<close>

definition dict_get :: "pydict \<Rightarrow> string \<Rightarrow> json" where
  "dict_get d k = (case map_of d k of None \<Rightarrow> JNull | Some v \<Rightarrow> v)"

definition dict_get_default :: "pydict \<Rightarrow> string \<Rightarrow> json \<Rightarrow> json" where
  "dict_get_default d k dflt = (case map_of d k of None \<Rightarrow> dflt | Some v \<Rightarrow> v)"

text \<open>
  \<^verbatim>\<open>v.get(k)\<close> on an arbitrary value: only a dictionary has the method, every other
  value raises AttributeError.
\<close>

fun attr_get :: "json \<Rightarrow> string \<Rightarrow> py_exc + json" where
  "attr_get (JDict d) k = Inr (dict_get d k)"
| "attr_get v k = Inl AttributeError"

subsection \<open>Decimal rendering of integers\<close>

text \<open>\<^verbatim>\<open>f"cmd-{n}"\<close> renders the integer \<open>n\<close> in decimal.\<close>

definition digit_char :: "nat \<Rightarrow> char" where
  "digit_char d = char_of (48 + d)"

fun str_nat :: "nat \<Rightarrow> string" where
  "str_nat n = (if n < 10 then [digit_char n] else str_nat (n div 10) @ [digit_char (n mod 10)])"

declare str_nat.simps [simp del]

definition str_int :: "int \<Rightarrow> string" where
  "str_int i = (if i < 0 then CHR ''-'' # str_nat (nat (- i)) else str_nat (nat i))"

section \<open>The browser bridge (\<^verbatim>\<open>browser/bridge.py\<close>)\<close>

text \<open>
  An \<^verbatim>\<open>asyncio.Future\<close> is a shared object: the registry and the blocked caller both
  hold a reference to it. The bridge state therefore carries a store of futures,
  addressed by numbers, and the registry maps a command id to an address. The only
  exception the code ever stores in a future is \<^verbatim>\<open>ConnectionError(msg)\<close>, so
  \<open>FException\<close> carries its message. \<open>FCancelled\<close> is what \<^verbatim>\<open>asyncio.wait_for\<close> leaves
  behind when its timeout expires.
\<close>

datatype fut_state =
    FPending
  | FResult pydict
  | FException string
  | FCancelled

definition future_done :: "fut_state \<Rightarrow> bool" where
  "future_done s = (s \<noteq> FPending)"

text \<open>The event loop attribute \<^verbatim>\<open>_loop\<close>: not yet created, running, or closed.\<close>

datatype loop_state = NoLoop | LoopRunning | LoopClosed

text \<open>
  The fields of \<^verbatim>\<open>BrowserBridge\<close>. \<open>futures\<close> and \<open>next_future\<close> are the store of
  future objects created on the loop; \<open>sent\<close> lists the command frames handed to
  \<^verbatim>\<open>client.send\<close>, oldest first.
\<close>

record browser_bridge =
  host :: string
  port :: int
  server :: bool
  client :: "nat option"
  connected :: bool
  command_id :: int
  pending_commands :: "(string \<times> nat) list"
  loop :: loop_state
  thread :: bool
  running :: bool
  futures :: "nat \<Rightarrow> fut_state"
  next_future :: nat
  sent :: "json list"

text \<open>\<^verbatim>\<open>BrowserBridge.__init__\<close>, lines 34 to 43.\<close>

definition init_bridge :: "string \<Rightarrow> int \<Rightarrow> browser_bridge" where
  "init_bridge h p =
     \<lparr> host = h, port = p, server = False, client = None, connected = False,
       command_id = 0, pending_commands = [], loop = NoLoop, thread = False,
       running = False, futures = (\<lambda>_. FPending), next_future = 0, sent = [] \<rparr>"

text \<open>
  \<^verbatim>\<open>start\<close>: a second call is a no-op; the first starts the server thread. The thread body
  \<^verbatim>\<open>_run_server\<close> creates the loop and binds the listener; when binding fails the
  exception is logged and the loop is closed.
\<close>

definition start :: "browser_bridge \<Rightarrow> browser_bridge" where
  "start b = (if running b then b else b\<lparr>running := True, thread := True\<rparr>)"

definition run_server :: "browser_bridge \<Rightarrow> bool \<Rightarrow> browser_bridge" where
  "run_server b bound =
     (if bound then b\<lparr>loop := LoopRunning, server := True\<rparr> else b\<lparr>loop := LoopClosed\<rparr>)"

text \<open>\<^verbatim>\<open>stop\<close>: the loop is stopped and then closed by the server thread.\<close>

definition stop :: "browser_bridge \<Rightarrow> browser_bridge" where
  "stop b =
     (let b1 = b\<lparr>running := False\<rparr>
      in if loop b1 = NoLoop then b1 else b1\<lparr>loop := LoopClosed\<rparr>)"

subsection \<open>The receive side\<close>

text \<open>
  An inbound frame is represented by what \<^verbatim>\<open>json.loads\<close> makes of it: the decoded
  value, or the exception it raises.
\<close>

type_synonym frame = "py_exc + json"

text \<open>
  \<^verbatim>\<open>_handle_message\<close>, lines 120 to 138. The result pairs the exception that escapes the
  method, if any, with the new state. Only \<^verbatim>\<open>json.JSONDecodeError\<close> is caught. The
  registry keys are strings, so a hashable id that is not a string is never found.
\<close>

definition handle_message :: "browser_bridge \<Rightarrow> frame \<Rightarrow> py_exc option \<times> browser_bridge" where
  "handle_message b message =
     (case message of
        Inl e \<Rightarrow> (if e = JSONDecodeError then (None, b) else (Some e, b))
      | Inr data \<Rightarrow>
          (case data of
             JDict d \<Rightarrow>
               if dict_get d ''type'' = JStr ''handshake'' then (None, b)
               else
                 let cmd_id = dict_get d ''id'' in
                 if \<not> truthy cmd_id then (None, b)
                 else if \<not> hashable cmd_id then (Some TypeError, b)
                 else
                   (case cmd_id of
                      JStr k \<Rightarrow>
                        (case map_of (pending_commands b) k of
                           None \<Rightarrow> (None, b)
                         | Some f \<Rightarrow>
                             let b1 = b\<lparr>pending_commands := AList.delete k (pending_commands b)\<rparr>
                             in if future_done (futures b1 f) then (None, b1)
                                else (None, b1\<lparr>futures := (futures b1)(f := FResult d)\<rparr>))
                    | _ \<Rightarrow> (None, b))
           | _ \<Rightarrow> (Some AttributeError, b)))"

text \<open>
  The \<^verbatim>\<open>finally\<close> block of \<^verbatim>\<open>_handle_client\<close>, lines 110 to 118: the loop over the
  registry's values, then \<^verbatim>\<open>clear()\<close>.
\<close>

definition cancel_future :: "nat \<Rightarrow> (nat \<Rightarrow> fut_state) \<Rightarrow> (nat \<Rightarrow> fut_state)" where
  "cancel_future f h =
     (if future_done (h f) then h else h(f := FException ''Extension disconnected''))"

definition handle_client_finally :: "browser_bridge \<Rightarrow> browser_bridge" where
  "handle_client_finally b =
     b\<lparr> client := None, connected := False,
        futures := fold cancel_future (map snd (pending_commands b)) (futures b),
        pending_commands := [] \<rparr>"

text \<open>
  The \<^verbatim>\<open>async for\<close> loop of \<^verbatim>\<open>_handle_client\<close>, lines 104 and 105, over the frames the
  connection delivers before it closes: it stops at the first exception.
\<close>

fun receive_loop :: "browser_bridge \<Rightarrow> frame list \<Rightarrow> py_exc option \<times> browser_bridge" where
  "receive_loop b [] = (None, b)"
| "receive_loop b (m # ms) =
     (case handle_message b m of
        (Some e, b1) \<Rightarrow> (Some e, b1)
      | (None, b1) \<Rightarrow> receive_loop b1 ms)"

text \<open>
  \<^verbatim>\<open>_handle_client\<close>, lines 95 to 118, run without interruption. Both \<^verbatim>\<open>except\<close>
  clauses only log, so whatever ends the loop, the \<^verbatim>\<open>finally\<close> block runs next.
\<close>

definition handle_client :: "browser_bridge \<Rightarrow> nat \<Rightarrow> frame list \<Rightarrow> browser_bridge" where
  "handle_client b websocket frames =
     handle_client_finally
       (snd (receive_loop (b\<lparr>client := Some websocket, connected := True\<rparr>) frames))"

text \<open>
  Seen from a caller blocked in \<^verbatim>\<open>send_command\<close>, the handler runs in pieces: a peer
  connects (lines 100 and 101), a frame arrives (line 105; an exception escaping
  \<^verbatim>\<open>_handle_message\<close> ends the handler through the \<^verbatim>\<open>finally\<close> block), or the
  connection closes (lines 106 to 118).
\<close>

datatype event = EvConnect nat | EvFrame frame | EvClose

fun loop_event :: "browser_bridge \<Rightarrow> event \<Rightarrow> browser_bridge" where
  "loop_event b (EvConnect websocket) = b\<lparr>client := Some websocket, connected := True\<rparr>"
| "loop_event b (EvFrame m) =
     (case handle_message b m of
        (None, b1) \<Rightarrow> b1
      | (Some e, b1) \<Rightarrow> handle_client_finally b1)"
| "loop_event b EvClose = handle_client_finally b"

subsection \<open>The calling side\<close>

definition error_response :: "string \<Rightarrow> pydict" where
  "error_response msg = [(''success'', JBool False), (''error'', JStr msg)]"

text \<open>Lines 161 and 162, one statement each.\<close>

definition incr_command_id :: "browser_bridge \<Rightarrow> browser_bridge" where
  "incr_command_id b = b\<lparr>command_id := command_id b + 1\<rparr>"

definition format_cmd_id :: "browser_bridge \<Rightarrow> string" where
  "format_cmd_id b = ''cmd-'' @ str_int (command_id b)"

text \<open>Line 171: a new pending future on the loop.\<close>

definition create_future :: "browser_bridge \<Rightarrow> nat \<times> browser_bridge" where
  "create_future b =
     (next_future b,
      b\<lparr>futures := (futures b)(next_future b := FPending), next_future := Suc (next_future b)\<rparr>)"

text \<open>
  \<^verbatim>\<open>send_command\<close> up to the point where the caller starts to wait, lines 157 to 178:
  it returns at once, raises, or has registered a future under a new id and handed
  the command to the client. With no client, \<^verbatim>\<open>self.client.send\<close> raises
  AttributeError; on a closed loop \<^verbatim>\<open>run_coroutine_threadsafe\<close> raises RuntimeError.
  Both happen after the future is registered and outside the \<^verbatim>\<open>try\<close>.
\<close>

datatype begun = Returned pydict | Raised py_exc | Waiting string nat

definition send_command_begin ::
  "browser_bridge \<Rightarrow> string \<Rightarrow> pydict option \<Rightarrow> begun \<times> browser_bridge" where
  "send_command_begin b action params =
     (if \<not> connected b \<or> loop b = NoLoop
      then (Returned (error_response ''Extension not connected''), b)
      else
        let b1 = incr_command_id b;
            cmd_id = format_cmd_id b1;
            command = JDict [(''id'', JStr cmd_id), (''action'', JStr action),
                             (''params'', JDict (case params of None \<Rightarrow> [] | Some d \<Rightarrow> d))];
            (future, b2) = create_future b1;
            b3 = b2\<lparr>pending_commands := AList.update cmd_id future (pending_commands b2)\<rparr>
        in case client b3 of
             None \<Rightarrow> (Raised AttributeError, b3)
           | Some websocket \<Rightarrow>
               if loop b3 = LoopClosed then (Raised RuntimeError, b3)
               else (Waiting cmd_id future, b3\<lparr>sent := sent b3 @ [command]\<rparr>))"

text \<open>
  The wait of line 183, seen from the store: the events the loop handles until the
  future is done. When the list runs out with the future still pending, the timeout
  has expired.
\<close>

fun wait_for :: "browser_bridge \<Rightarrow> nat \<Rightarrow> event list \<Rightarrow> browser_bridge" where
  "wait_for b f [] = b"
| "wait_for b f (e # es) =
     (if future_done (futures b f) then b else wait_for (loop_event b e) f es)"

text \<open>
  The end of the wait, lines 181 to 193. A result is returned as it is. A stored
  exception reaches \<^verbatim>\<open>except Exception\<close>. A future still pending means the timeout
  expired: \<^verbatim>\<open>wait_for\<close> cancels the future and raises \<^verbatim>\<open>asyncio.TimeoutError\<close>. A
  future cancelled by someone else makes \<^verbatim>\<open>wait_for\<close> raise CancelledError, which
  \<^verbatim>\<open>except Exception\<close> does not catch.
\<close>

definition send_command_finish ::
  "browser_bridge \<Rightarrow> string \<Rightarrow> nat \<Rightarrow> (py_exc + pydict) \<times> browser_bridge" where
  "send_command_finish b cmd_id future =
     (case futures b future of
        FResult d \<Rightarrow> (Inr d, b)
      | FException msg \<Rightarrow>
          (Inr (error_response msg),
           b\<lparr>pending_commands := AList.delete cmd_id (pending_commands b)\<rparr>)
      | FPending \<Rightarrow>
          (Inr (error_response ''Command timed out''),
           b\<lparr>futures := (futures b)(future := FCancelled),
             pending_commands := AList.delete cmd_id (pending_commands b)\<rparr>)
      | FCancelled \<Rightarrow> (Inl CancelledError, b))"

text \<open>
  \<^verbatim>\<open>send_command\<close>, lines 140 to 193. The last argument lists what the event loop
  handles while the caller waits; it stands for the \<^verbatim>\<open>timeout\<close>.
\<close>

definition send_command ::
  "browser_bridge \<Rightarrow> string \<Rightarrow> pydict option \<Rightarrow> event list \<Rightarrow> (py_exc + pydict) \<times> browser_bridge" where
  "send_command b action params evs =
     (case send_command_begin b action params of
        (Returned r, b1) \<Rightarrow> (Inr r, b1)
      | (Raised e, b1) \<Rightarrow> (Inl e, b1)
      | (Waiting cmd_id future, b1) \<Rightarrow> send_command_finish (wait_for b1 future evs) cmd_id future)"

text \<open>
  A history of one bridge: callers begin and end their calls, and the event loop
  handles events, in any order.
\<close>

datatype op = OpBegin string "pydict option" | OpEvent event | OpFinish string nat

fun exec_op :: "browser_bridge \<Rightarrow> op \<Rightarrow> browser_bridge" where
  "exec_op b (OpBegin action params) = snd (send_command_begin b action params)"
| "exec_op b (OpEvent e) = loop_event b e"
| "exec_op b (OpFinish cmd_id future) = snd (send_command_finish b cmd_id future)"

fun run_ops :: "browser_bridge \<Rightarrow> op list \<Rightarrow> browser_bridge" where
  "run_ops b [] = b"
| "run_ops b (x # xs) = run_ops (exec_op b x) xs"

text \<open>
  Two or more callers inside lines 161 and 162 at the same time. The code takes no
  lock, so the statements of different callers can alternate. A caller scheduled for
  the first time runs line 161; scheduled again it runs line 162 and keeps the id
  in its local variable.
\<close>

record alloc_state =
  shared :: browser_bridge
  at_line_162 :: "nat list"
  local_cmd_id :: "(nat \<times> string) list"

definition alloc_step :: "alloc_state \<Rightarrow> nat \<Rightarrow> alloc_state" where
  "alloc_step s t =
     (if t \<in> set (at_line_162 s)
      then s\<lparr>at_line_162 := removeAll t (at_line_162 s),
             local_cmd_id := local_cmd_id s @ [(t, format_cmd_id (shared s))]\<rparr>
      else s\<lparr>shared := incr_command_id (shared s), at_line_162 := t # at_line_162 s\<rparr>)"

definition run_schedule :: "browser_bridge \<Rightarrow> nat list \<Rightarrow> alloc_state" where
  "run_schedule b ts =
     fold (\<lambda>t s. alloc_step s t) ts \<lparr>shared = b, at_line_162 = [], local_cmd_id = []\<rparr>"

subsection \<open>Convenience methods\<close>

definition opt_truthy :: "string option \<Rightarrow> bool" where
  "opt_truthy s = (case s of None \<Rightarrow> False | Some x \<Rightarrow> x \<noteq> [])"

definition set_if :: "string \<Rightarrow> string option \<Rightarrow> pydict \<Rightarrow> pydict" where
  "set_if k s params =
     (case s of None \<Rightarrow> params
      | Some x \<Rightarrow> if x \<noteq> [] then AList.update k (JStr x) params else params)"

definition navigate ::
  "browser_bridge \<Rightarrow> string \<Rightarrow> event list \<Rightarrow> (py_exc + pydict) \<times> browser_bridge" where
  "navigate b url evs = send_command b ''navigate'' (Some [(''url'', JStr url)]) evs"

text \<open>\<^verbatim>\<open>BrowserBridge.click\<close>, lines 201 to 215.\<close>

definition bridge_click ::
  "browser_bridge \<Rightarrow> string option \<Rightarrow> string option \<Rightarrow> int list option \<Rightarrow> event list
     \<Rightarrow> (py_exc + pydict) \<times> browser_bridge" where
  "bridge_click b selector text_arg coordinates evs =
     (let p1 = set_if ''selector'' selector [];
          p2 = set_if ''text'' text_arg p1;
          p3 = (case coordinates of
                  None \<Rightarrow> p2
                | Some c \<Rightarrow> if c \<noteq> [] then AList.update ''coordinates'' (JList (map JInt c)) p2
                            else p2)
      in send_command b ''click'' (Some p3) evs)"

definition type_text ::
  "browser_bridge \<Rightarrow> string \<Rightarrow> string option \<Rightarrow> bool \<Rightarrow> event list
     \<Rightarrow> (py_exc + pydict) \<times> browser_bridge" where
  "type_text b text_arg selector clear evs =
     send_command b ''type''
       (Some (set_if ''selector'' selector [(''text'', JStr text_arg), (''clear'', JBool clear)])) evs"

text \<open>\<^verbatim>\<open>BrowserBridge.scroll\<close>, lines 229 to 239.\<close>

definition bridge_scroll ::
  "browser_bridge \<Rightarrow> string \<Rightarrow> int \<Rightarrow> string option \<Rightarrow> event list
     \<Rightarrow> (py_exc + pydict) \<times> browser_bridge" where
  "bridge_scroll b direction amount selector evs =
     send_command b ''scroll''
       (Some (set_if ''selector'' selector [(''direction'', JStr direction), (''amount'', JInt amount)]))
       evs"

definition screenshot ::
  "browser_bridge \<Rightarrow> event list \<Rightarrow> (py_exc + pydict) \<times> browser_bridge" where
  "screenshot b evs = send_command b ''screenshot'' None evs"

definition get_dom ::
  "browser_bridge \<Rightarrow> bool \<Rightarrow> event list \<Rightarrow> (py_exc + pydict) \<times> browser_bridge" where
  "get_dom b simplified evs = send_command b ''get_dom'' (Some [(''simplified'', JBool simplified)]) evs"

definition find_element ::
  "browser_bridge \<Rightarrow> string option \<Rightarrow> string option \<Rightarrow> event list
     \<Rightarrow> (py_exc + pydict) \<times> browser_bridge" where
  "find_element b selector text_arg evs =
     send_command b ''find_element'' (Some (set_if ''text'' text_arg (set_if ''selector'' selector []))) evs"

subsection \<open>The process-wide instance\<close>

text \<open>
  Bridge objects live in a store and are named by their address; \<open>n_bridges\<close> counts the
  objects constructed so far. \<open>bridge_global\<close> is the module variable \<^verbatim>\<open>_bridge\<close>, and
  \<open>websockets\<close> tells whether the module's import of the websockets package succeeded.
  \<open>visual_log\<close> records the calls made to the visual executor (section 3).
\<close>

datatype visual_call =
    VClick string int string "string list"
  | VType string string bool bool
  | VScroll string string int

record process =
  websockets :: bool
  bridge_global :: "nat option"
  bridges :: "nat \<Rightarrow> browser_bridge"
  n_bridges :: nat
  visual_log :: "visual_call list"



section \<open>The routing engine (\<^verbatim>\<open>agents/hybrid_aci.py\<close>)\<close>

text \<open>
  What the engine consumes from outside: the window classifier's answer
  (\<^verbatim>\<open>is_browser_active()\<close>), Python's \<^verbatim>\<open>repr\<close> on strings, and the parent class
  \<^verbatim>\<open>OSWorldACI\<close>, whose \<^verbatim>\<open>click\<close>, \<^verbatim>\<open>type\<close> and \<^verbatim>\<open>scroll\<close> are the visual executor.
  The parent's methods are opaque functions from their arguments to an instruction
  string; every call to one of them is recorded in \<open>visual_log\<close>.
\<close>

text \<open>
  Where two methods share a name, \<^verbatim>\<open>BrowserBridge.click\<close> and \<^verbatim>\<open>BrowserBridge.scroll\<close>
  are \<open>bridge_click\<close> and \<open>bridge_scroll\<close>, and \<^verbatim>\<open>HybridACI.click\<close>, \<^verbatim>\<open>type\<close> and
  \<^verbatim>\<open>scroll\<close> are \<open>aci_click\<close>, \<open>aci_type\<close> and \<open>aci_scroll\<close>.
\<close>

record environment =
  is_browser_active :: bool
  repr :: "string \<Rightarrow> string"
  super_click :: "string \<Rightarrow> int \<Rightarrow> string \<Rightarrow> string list \<Rightarrow> string"
  super_type :: "string \<Rightarrow> string \<Rightarrow> bool \<Rightarrow> bool \<Rightarrow> string"
  super_scroll :: "string \<Rightarrow> string \<Rightarrow> int \<Rightarrow> string"

record hybrid_aci =
  enable_browser :: bool
  bridge :: "nat option"


definition browser_available :: "process \<Rightarrow> hybrid_aci \<Rightarrow> bool" where
  "browser_available w a =
     (case bridge a of
        None \<Rightarrow> False
      | Some r \<Rightarrow> if \<not> enable_browser a then False else connected (bridges w r))"

definition should_use_browser :: "environment \<Rightarrow> process \<Rightarrow> hybrid_aci \<Rightarrow> bool" where
  "should_use_browser env w a =
     (if \<not> browser_available w a then False else is_browser_active env)"

text \<open>A method call on the bridge object at address \<open>r\<close>: the object is updated in place.\<close>

definition store_bridge :: "process \<Rightarrow> nat \<Rightarrow> 'a \<times> browser_bridge \<Rightarrow> 'a \<times> process" where
  "store_bridge w r res = (fst res, w\<lparr>bridges := (bridges w)(r := snd res)\<rparr>)"

text \<open>
  The test \<^verbatim>\<open>result.get("success") and result.get("result", {}).get(key)\<close>: the second
  operand is evaluated only when the first is true, and raises AttributeError when the
  \<^verbatim>\<open>result\<close> entry is present and not a dictionary.
\<close>

definition success_and :: "pydict \<Rightarrow> string \<Rightarrow> py_exc + bool" where
  "success_and res key =
     (if \<not> truthy (dict_get res ''success'') then Inr False
      else (case attr_get (dict_get_default res ''result'' (JDict [])) key of
              Inl e \<Rightarrow> Inl e
            | Inr v \<Rightarrow> Inr (truthy v)))"

text \<open>The calls to the parent class.\<close>

definition visual_click ::
  "environment \<Rightarrow> process \<Rightarrow> string \<Rightarrow> int \<Rightarrow> string \<Rightarrow> string list \<Rightarrow> (py_exc + string) \<times> process" where
  "visual_click env w element_description num_clicks button_type hold_keys =
     (Inr (super_click env element_description num_clicks button_type hold_keys),
      w\<lparr>visual_log := visual_log w @ [VClick element_description num_clicks button_type hold_keys]\<rparr>)"

definition visual_type ::
  "environment \<Rightarrow> process \<Rightarrow> string \<Rightarrow> string \<Rightarrow> bool \<Rightarrow> bool \<Rightarrow> (py_exc + string) \<times> process" where
  "visual_type env w text_arg element_description overwrite enter =
     (Inr (super_type env text_arg element_description overwrite enter),
      w\<lparr>visual_log := visual_log w @ [VType text_arg element_description overwrite enter]\<rparr>)"

definition visual_scroll ::
  "environment \<Rightarrow> process \<Rightarrow> string \<Rightarrow> string \<Rightarrow> int \<Rightarrow> (py_exc + string) \<times> process" where
  "visual_scroll env w element_description direction amount =
     (Inr (super_scroll env element_description direction amount),
      w\<lparr>visual_log := visual_log w @ [VScroll element_description direction amount]\<rparr>)"

text \<open>\<^verbatim>\<open>_try_browser_click\<close>, lines 73 to 92. \<open>Inr None\<close> is the return value \<^verbatim>\<open>None\<close>.\<close>

definition try_browser_click ::
  "process \<Rightarrow> hybrid_aci \<Rightarrow> string \<Rightarrow> event list \<Rightarrow> (py_exc + string option) \<times> process" where
  "try_browser_click w a element_description evs =
     (if \<not> browser_available w a then (Inr None, w)
      else
        (case bridge a of
           None \<Rightarrow> (Inl AttributeError, w)
         | Some r \<Rightarrow>
             (case store_bridge w r (bridge_click (bridges w r) None (Some element_description) None evs) of
                (Inl e, w1) \<Rightarrow> (Inl e, w1)
              | (Inr res, w1) \<Rightarrow>
                  (case success_and res ''clicked'' of
                     Inl e \<Rightarrow> (Inl e, w1)
                   | Inr True \<Rightarrow> (Inr (Some ''import time; time.sleep(0.3)  # DOM click completed''), w1)
                   | Inr False \<Rightarrow> (Inr None, w1)))))"

text \<open>\<^verbatim>\<open>_try_browser_type\<close>, lines 94 to 124: first the part from line 117 on.\<close>

definition try_browser_type_send ::
  "process \<Rightarrow> nat \<Rightarrow> string \<Rightarrow> bool \<Rightarrow> event list \<Rightarrow> (py_exc + string option) \<times> process" where
  "try_browser_type_send w r text_arg clear evs =
     (case store_bridge w r (type_text (bridges w r) text_arg None clear evs) of
        (Inl e, w1) \<Rightarrow> (Inl e, w1)
      | (Inr res, w1) \<Rightarrow>
          (case success_and res ''typed'' of
             Inl e \<Rightarrow> (Inl e, w1)
           | Inr True \<Rightarrow> (Inr (Some ''import time; time.sleep(0.2)  # DOM type completed''), w1)
           | Inr False \<Rightarrow> (Inr None, w1)))"

definition try_browser_type ::
  "process \<Rightarrow> hybrid_aci \<Rightarrow> string \<Rightarrow> string option \<Rightarrow> bool \<Rightarrow> event list \<Rightarrow> event list
     \<Rightarrow> (py_exc + string option) \<times> process" where
  "try_browser_type w a text_arg element_description clear evs_find evs_type =
     (if \<not> browser_available w a then (Inr None, w)
      else
        (case bridge a of
           None \<Rightarrow> (Inl AttributeError, w)
         | Some r \<Rightarrow>
             if opt_truthy element_description
             then (case store_bridge w r (find_element (bridges w r) None element_description evs_find) of
                     (Inl e, w1) \<Rightarrow> (Inl e, w1)
                   | (Inr find_result, w1) \<Rightarrow>
                       (case success_and find_result ''found'' of
                          Inl e \<Rightarrow> (Inl e, w1)
                        | Inr False \<Rightarrow> (Inr None, w1)
                        | Inr True \<Rightarrow> try_browser_type_send w1 r text_arg clear evs_type))
             else try_browser_type_send w r text_arg clear evs_type))"

text \<open>
  \<^verbatim>\<open>HybridACI.click\<close>, lines 126 to 149. The last argument of each action lists, for every
  bridge command the action may send, what the event loop handles during that wait.
\<close>

definition aci_click ::
  "environment \<Rightarrow> process \<Rightarrow> hybrid_aci \<Rightarrow> string \<Rightarrow> int \<Rightarrow> string \<Rightarrow> string list \<Rightarrow> event list
     \<Rightarrow> (py_exc + string) \<times> process" where
  "aci_click env w a element_description num_clicks button_type hold_keys evs =
     (if should_use_browser env w a
      then (case try_browser_click w a element_description evs of
              (Inl e, w1) \<Rightarrow> (Inl e, w1)
            | (Inr (Some browser_result), w1) \<Rightarrow> (Inr browser_result, w1)
            | (Inr None, w1) \<Rightarrow> visual_click env w1 element_description num_clicks button_type hold_keys)
      else visual_click env w element_description num_clicks button_type hold_keys)"

text \<open>\<^verbatim>\<open>HybridACI.type\<close>, lines 151 to 181.\<close>

definition aci_type ::
  "environment \<Rightarrow> process \<Rightarrow> hybrid_aci \<Rightarrow> string \<Rightarrow> string \<Rightarrow> bool \<Rightarrow> bool
     \<Rightarrow> event list \<Rightarrow> event list \<Rightarrow> event list \<Rightarrow> (py_exc + string) \<times> process" where
  "aci_type env w a text_arg element_description overwrite enter evs_find evs_type evs_enter =
     (if should_use_browser env w a
      then (case try_browser_type w a text_arg
                   (if element_description \<noteq> [] then Some element_description else None)
                   overwrite evs_find evs_type of
              (Inl e, w1) \<Rightarrow> (Inl e, w1)
            | (Inr (Some browser_result), w1) \<Rightarrow>
                if enter
                then (case bridge a of
                        None \<Rightarrow> (Inl AttributeError, w1)
                      | Some r \<Rightarrow>
                          (case store_bridge w1 r
                                  (send_command (bridges w1 r) ''type''
                                     (Some [(''text'', JStr []), (''pressEnter'', JBool True)]) evs_enter) of
                             (Inl e, w2) \<Rightarrow> (Inl e, w2)
                           | (Inr ignored, w2) \<Rightarrow> (Inr browser_result, w2)))
                else (Inr browser_result, w1)
            | (Inr None, w1) \<Rightarrow> visual_type env w1 text_arg element_description overwrite enter)
      else visual_type env w text_arg element_description overwrite enter)"

text \<open>\<^verbatim>\<open>HybridACI.scroll\<close>, lines 183 to 208.\<close>

definition aci_scroll ::
  "environment \<Rightarrow> process \<Rightarrow> hybrid_aci \<Rightarrow> string \<Rightarrow> string \<Rightarrow> int \<Rightarrow> event list
     \<Rightarrow> (py_exc + string) \<times> process" where
  "aci_scroll env w a element_description direction amount evs =
     (if should_use_browser env w a
      then (case bridge a of
              None \<Rightarrow> (Inl AttributeError, w)
            | Some r \<Rightarrow>
                (case store_bridge w r (bridge_scroll (bridges w r) direction (amount * 100) None evs) of
                   (Inl e, w1) \<Rightarrow> (Inl e, w1)
                 | (Inr res, w1) \<Rightarrow>
                     if truthy (dict_get res ''success'')
                     then (Inr ''import time; time.sleep(0.2)  # DOM scroll completed'', w1)
                     else visual_scroll env w1 element_description direction amount))
      else visual_scroll env w element_description direction amount)"

text \<open>\<^verbatim>\<open>HybridACI.goto\<close>, lines 210 to 224.\<close>

definition open_in_browser :: "environment \<Rightarrow> string \<Rightarrow> string" where
  "open_in_browser env url = ''import webbrowser; webbrowser.open('' @ repr env url @ '')''"

definition goto ::
  "environment \<Rightarrow> process \<Rightarrow> hybrid_aci \<Rightarrow> string \<Rightarrow> event list \<Rightarrow> (py_exc + string) \<times> process" where
  "goto env w a url evs =
     (if browser_available w a
      then (case bridge a of
              None \<Rightarrow> (Inl AttributeError, w)
            | Some r \<Rightarrow>
                (case store_bridge w r (navigate (bridges w r) url evs) of
                   (Inl e, w1) \<Rightarrow> (Inl e, w1)
                 | (Inr res, w1) \<Rightarrow>
                     if truthy (dict_get res ''success'')
                     then (Inr ''import time; time.sleep(1.0)  # Navigation completed'', w1)
                     else (Inr (open_in_browser env url), w1)))
      else (Inr (open_in_browser env url), w))"

text \<open>\<^verbatim>\<open>get_page_content\<close>, lines 226 to 241. \<open>JNull\<close> is the return value \<^verbatim>\<open>None\<close>.\<close>

definition get_page_content ::
  "environment \<Rightarrow> process \<Rightarrow> hybrid_aci \<Rightarrow> event list \<Rightarrow> (py_exc + json) \<times> process" where
  "get_page_content env w a evs =
     (if \<not> should_use_browser env w a then (Inr JNull, w)
      else
        (case bridge a of
           None \<Rightarrow> (Inl AttributeError, w)
         | Some r \<Rightarrow>
             (case store_bridge w r (get_dom (bridges w r) True evs) of
                (Inl e, w1) \<Rightarrow> (Inl e, w1)
              | (Inr res, w1) \<Rightarrow>
                  if truthy (dict_get res ''success'') then (Inr (dict_get res ''result''), w1)
                  else (Inr JNull, w1))))"

text \<open>\<^verbatim>\<open>get_browser_screenshot\<close>, lines 243 to 258.\<close>

definition get_browser_screenshot ::
  "process \<Rightarrow> hybrid_aci \<Rightarrow> event list \<Rightarrow> (py_exc + json) \<times> process" where
  "get_browser_screenshot w a evs =
     (if \<not> browser_available w a then (Inr JNull, w)
      else
        (case bridge a of
           None \<Rightarrow> (Inl AttributeError, w)
         | Some r \<Rightarrow>
             (case store_bridge w r (screenshot (bridges w r) evs) of
                (Inl e, w1) \<Rightarrow> (Inl e, w1)
              | (Inr res, w1) \<Rightarrow>
                  if truthy (dict_get res ''success'')
                  then (case attr_get (dict_get_default res ''result'' (JDict [])) ''screenshot'' of
                          Inl e \<Rightarrow> (Inl e, w1)
                        | Inr v \<Rightarrow> (Inr v, w1))
                  else (Inr JNull, w1))))"




section \<open>Well-formed bridges and the states used in the examples\<close>

text \<open>
  A bridge that is well formed for a caller: while it is marked connected it has a
  client, and its loop has not been closed by \<^verbatim>\<open>stop\<close>.
\<close>

definition bridge_ok :: "browser_bridge \<Rightarrow> bool" where
  "bridge_ok b = ((connected b \<longrightarrow> client b \<noteq> None) \<and> loop b \<noteq> LoopClosed)"

text \<open>A started bridge with the extension attached as client 0.\<close>

definition attached_bridge :: browser_bridge where
  "attached_bridge =
     loop_event (run_server (start (init_bridge ''127.0.0.1'' 9333)) True) (EvConnect 0)"

text \<open>The same bridge with one caller waiting for the answer to a click command.\<close>

definition waiting_bridge :: browser_bridge where
  "waiting_bridge = snd (send_command_begin attached_bridge ''click'' None)"

text \<open>A fresh process, and a process whose agent holds the attached bridge at address 0.\<close>

definition fresh_process :: process where
  "fresh_process =
     \<lparr>websockets = True, bridge_global = None, bridges = (\<lambda>_. init_bridge ''127.0.0.1'' 9333),
      n_bridges = 0, visual_log = []\<rparr>"

definition attached_process :: process where
  "attached_process =
     \<lparr>websockets = True, bridge_global = Some 0, bridges = (\<lambda>_. attached_bridge),
      n_bridges = 1, visual_log = []\<rparr>"

definition agent :: hybrid_aci where
  "agent = \<lparr>enable_browser = True, bridge = Some 0\<rparr>"

text \<open>
  An environment for the examples: the classifier's answer is given, \<^verbatim>\<open>repr\<close> wraps a
  string in single quotes (what Python does for a string without quotes, backslashes
  or control characters), and the visual executor returns a string built from its
  first argument.
\<close>

definition example_env :: "bool \<Rightarrow> environment" where
  "example_env active =
     \<lparr>is_browser_active = active,
      repr = (\<lambda>s. [CHR 0x27] @ s @ [CHR 0x27]),
      super_click = (\<lambda>d n b h. ''visual click: '' @ d),
      super_type = (\<lambda>t d ov en. ''visual type: '' @ t),
      super_scroll = (\<lambda>d dir n. ''visual scroll: '' @ dir)\<rparr>"



definition response_screenshot :: pydict where
  "response_screenshot =
     [(''id'', JStr ''cmd-1''), (''success'', JBool True), (''result'', JDict [(''screenshot'', JStr ''iVBOR'')])]"

section \<open>Decimal rendering is injective\<close>

lemma digit_char_inj: "a < 10 \<Longrightarrow> c < 10 \<Longrightarrow> digit_char a = digit_char c \<Longrightarrow> a = c"
proof -
  assume a: "a < 10" and c: "c < 10" and e: "digit_char a = digit_char c"
  from e have "of_char (char_of (48 + a) :: char) = (of_char (char_of (48 + c) :: char) :: nat)"
    by (simp add: digit_char_def)
  with a c show "a = c" by simp
qed

lemma digit_char_not_minus: "d < 10 \<Longrightarrow> digit_char d \<noteq> CHR ''-''"
proof
  assume d: "d < 10" and e: "digit_char d = CHR ''-''"
  from e have "of_char (char_of (48 + d) :: char) = (of_char (CHR ''-'') :: nat)"
    by (simp add: digit_char_def)
  with d show False by simp
qed

lemma str_nat_not_Nil: "str_nat n \<noteq> []"
  by (subst str_nat.simps) simp

lemma str_nat_inj: "str_nat n = str_nat m \<Longrightarrow> n = m"
proof (induction n arbitrary: m rule: str_nat.induct)
  case (1 n)
  show ?case
  proof (cases "n < 10")
    case True
    then have n: "str_nat n = [digit_char n]" by (subst str_nat.simps) simp
    show ?thesis
    proof (cases "m < 10")
      case True
      then have "str_nat m = [digit_char m]" by (subst str_nat.simps) simp
      with n "1.prems" \<open>n < 10\<close> True show ?thesis by (auto dest: digit_char_inj)
    next
      case False
      then have "str_nat m = str_nat (m div 10) @ [digit_char (m mod 10)]"
        by (subst str_nat.simps) simp
      with n "1.prems" have "str_nat (m div 10) = []" by simp
      then show ?thesis by (simp add: str_nat_not_Nil)
    qed
  next
    case False
    then have n: "str_nat n = str_nat (n div 10) @ [digit_char (n mod 10)]"
      by (subst str_nat.simps) simp
    show ?thesis
    proof (cases "m < 10")
      case True
      then have "str_nat m = [digit_char m]" by (subst str_nat.simps) simp
      with n "1.prems" have "str_nat (n div 10) = []" by simp
      then show ?thesis by (simp add: str_nat_not_Nil)
    next
      case m: False
      then have "str_nat m = str_nat (m div 10) @ [digit_char (m mod 10)]"
        by (subst str_nat.simps) simp
      with n "1.prems" have a: "str_nat (n div 10) = str_nat (m div 10)"
        and b: "digit_char (n mod 10) = digit_char (m mod 10)" by simp_all
      from "1.IH" [OF False a] have q: "n div 10 = m div 10" .
      from b have r: "n mod 10 = m mod 10" using digit_char_inj [of "n mod 10" "m mod 10"] by simp
      from q r show ?thesis by (metis div_mult_mod_eq)
    qed
  qed
qed

lemma hd_str_nat_not_minus: "hd (str_nat n) \<noteq> CHR ''-''"
proof (induction n rule: str_nat.induct)
  case (1 n)
  show ?case
  proof (cases "n < 10")
    case True
    then have "str_nat n = [digit_char n]" by (subst str_nat.simps) simp
    with True show ?thesis by (simp add: digit_char_not_minus)
  next
    case False
    then have "str_nat n = str_nat (n div 10) @ [digit_char (n mod 10)]"
      by (subst str_nat.simps) simp
    with "1.IH" [OF False] show ?thesis by (simp add: str_nat_not_Nil)
  qed
qed

lemma str_int_inj: "str_int i = str_int j \<Longrightarrow> i = j"
proof -
  assume e: "str_int i = str_int j"
  have neg: "\<And>a n. CHR ''-'' # a \<noteq> str_nat n"
    using hd_str_nat_not_minus by (metis list.sel(1))
  show "i = j"
  proof (cases "i < 0")
    case True
    show ?thesis
    proof (cases "j < 0")
      case j: True
      with True e have "str_nat (nat (- i)) = str_nat (nat (- j))" by (simp add: str_int_def)
      then have "nat (- i) = nat (- j)" by (rule str_nat_inj)
      with True j show ?thesis by simp
    next
      case False
      with True e neg show ?thesis by (simp add: str_int_def)
    qed
  next
    case False
    show ?thesis
    proof (cases "j < 0")
      case True
      with False e neg [of "str_nat (nat (- j))" "nat i"] show ?thesis by (simp add: str_int_def)
    next
      case j: False
      with False e have "str_nat (nat i) = str_nat (nat j)" by (simp add: str_int_def)
      then have "nat i = nat j" by (rule str_nat_inj)
      with False j show ?thesis by simp
    qed
  qed
qed

lemma format_cmd_id_inj: "format_cmd_id b = format_cmd_id c \<Longrightarrow> command_id b = command_id c"
  by (simp add: format_cmd_id_def str_int_inj)

section \<open>Facts about the receive side\<close>

lemma fold_cancel_future:
  "fold cancel_future fs h f =
     (if f \<in> set fs \<and> \<not> future_done (h f) then FException ''Extension disconnected'' else h f)"
proof (induction fs arbitrary: h)
  case Nil
  then show ?case by simp
next
  case (Cons a fs)
  show ?case
    by (simp add: Cons.IH) (simp add: cancel_future_def future_done_def)
qed

lemma finally_fields [simp]:
  "pending_commands (handle_client_finally b) = []"
  "connected (handle_client_finally b) = False"
  "client (handle_client_finally b) = None"
  "command_id (handle_client_finally b) = command_id b"
  "loop (handle_client_finally b) = loop b"
  "sent (handle_client_finally b) = sent b"
  by (simp_all add: handle_client_finally_def)

lemma finally_futures:
  "futures (handle_client_finally b) f =
     (if f \<in> snd ` set (pending_commands b) \<and> futures b f = FPending
      then FException ''Extension disconnected'' else futures b f)"
  by (simp add: handle_client_finally_def fold_cancel_future future_done_def)


lemma handle_message_fields [simp]:
  "command_id (snd (handle_message b m)) = command_id b"
  "loop (snd (handle_message b m)) = loop b"
  "connected (snd (handle_message b m)) = connected b"
  "client (snd (handle_message b m)) = client b"
  "sent (snd (handle_message b m)) = sent b"
  by (auto simp: handle_message_def Let_def split: sum.splits json.splits option.splits)



lemma handle_message_pending:
  "map_of (pending_commands b) k = None \<Longrightarrow>
   map_of (pending_commands (snd (handle_message b m))) k = None"
  by (auto simp: handle_message_def Let_def delete_conv split: sum.splits json.splits option.splits)

lemma loop_event_frame:
  "loop_event b (EvFrame m) =
     (if fst (handle_message b m) = None then snd (handle_message b m)
      else handle_client_finally (snd (handle_message b m)))"
  by (cases "handle_message b m") (auto split: option.splits)

declare loop_event.simps(2) [simp del]

lemma loop_event_fields [simp]:
  "command_id (loop_event b e) = command_id b"
  "loop (loop_event b e) = loop b"
  "sent (loop_event b e) = sent b"
  by (cases e; simp add: loop_event_frame)+

lemma loop_event_client: "connected b \<longrightarrow> client b \<noteq> None \<Longrightarrow>
  connected (loop_event b e) \<longrightarrow> client (loop_event b e) \<noteq> None"
  by (cases e; simp add: loop_event_frame)

lemma loop_event_pending:
  "map_of (pending_commands b) k = None \<Longrightarrow> map_of (pending_commands (loop_event b e)) k = None"
  by (cases e; simp add: loop_event_frame handle_message_pending)




lemma wait_for_fields [simp]:
  "command_id (wait_for b f evs) = command_id b"
  "loop (wait_for b f evs) = loop b"
  "sent (wait_for b f evs) = sent b"
  by (induction evs arbitrary: b; simp)+

lemma wait_for_client: "connected b \<longrightarrow> client b \<noteq> None \<Longrightarrow>
  connected (wait_for b f evs) \<longrightarrow> client (wait_for b f evs) \<noteq> None"
proof (induction evs arbitrary: b)
  case Nil
  then show ?case by simp
next
  case (Cons e evs)
  from Cons.IH [OF loop_event_client [OF Cons.prems]] Cons.prems show ?case by simp
qed

lemma wait_for_pending:
  "map_of (pending_commands b) k = None \<Longrightarrow> map_of (pending_commands (wait_for b f evs)) k = None"
  by (induction evs arbitrary: b) (simp_all add: loop_event_pending)




section \<open>Facts about the calling side and histories\<close>

lemma cmd_key_neq: "n \<noteq> m \<Longrightarrow> ''cmd-'' @ str_int n \<noteq> ''cmd-'' @ str_int m"
  by (auto dest: str_int_inj)

lemma begin_waiting:
  assumes "send_command_begin b action params = (Waiting k f, b1)"
  shows "k = ''cmd-'' @ str_int (command_id b + 1)" "f = next_future b"
    "command_id b1 = command_id b + 1" "futures b1 f = FPending"
    "map_of (pending_commands b1) k = Some f"
  using assms
  by (auto simp: send_command_begin_def Let_def create_future_def incr_command_id_def
      format_cmd_id_def update_conv split: option.splits if_splits)

lemma begin_command_id:
  "command_id (snd (send_command_begin b action params)) = command_id b \<or>
   command_id (snd (send_command_begin b action params)) = command_id b + 1"
  by (auto simp: send_command_begin_def Let_def create_future_def incr_command_id_def
      split: option.splits)


lemma finish_fields [simp]:
  "command_id (snd (send_command_finish b k f)) = command_id b"
  "loop (snd (send_command_finish b k f)) = loop b"
  "sent (snd (send_command_finish b k f)) = sent b"
  by (simp_all add: send_command_finish_def split: fut_state.splits)


lemma exec_op_command_id: "command_id b \<le> command_id (exec_op b x)"
proof (cases x)
  case (OpBegin action params)
  with begin_command_id [of b action params] show ?thesis by auto
qed simp_all

lemma run_ops_command_id: "command_id b \<le> command_id (run_ops b ops)"
proof (induction ops arbitrary: b)
  case Nil
  show ?case by simp
next
  case (Cons x ops)
  from exec_op_command_id [of b x] Cons.IH [of "exec_op b x"] show ?case by simp
qed




text \<open>A started bridge is well formed, and every step of a history keeps it so.\<close>

lemma bridge_ok_init: "bridge_ok (run_server (start (init_bridge h p)) True)"
  by (simp add: bridge_ok_def run_server_def start_def init_bridge_def)

lemma bridge_ok_event: "bridge_ok b \<Longrightarrow> bridge_ok (loop_event b e)"
  using loop_event_client [of b e] by (simp add: bridge_ok_def)

lemma bridge_ok_begin: "bridge_ok b \<Longrightarrow> bridge_ok (snd (send_command_begin b action params))"
  by (auto simp: bridge_ok_def send_command_begin_def Let_def create_future_def incr_command_id_def
      split: option.splits)

lemma bridge_ok_finish: "bridge_ok b \<Longrightarrow> bridge_ok (snd (send_command_finish b k f))"
  by (auto simp: bridge_ok_def send_command_finish_def split: fut_state.splits)

lemma bridge_ok_run_ops: "bridge_ok b \<Longrightarrow> bridge_ok (run_ops b ops)"
proof (induction ops arbitrary: b)
  case Nil
  then show ?case by simp
next
  case (Cons x ops)
  have "bridge_ok (exec_op b x)"
    using Cons.prems by (cases x) (simp_all add: bridge_ok_event bridge_ok_begin bridge_ok_finish)
  then show ?case using Cons.IH by simp
qed

section \<open>The example states, evaluated\<close>

lemma str_int_1: "str_int 1 = ''1''"
  by code_simp

lemma str_int_2: "str_int 2 = ''2''"
  by code_simp

lemma attached_bridge_eq:
  "attached_bridge = \<lparr> host = ''127.0.0.1'', port = 9333, server = True, client = Some 0, connected = True,
       command_id = 0, pending_commands = [], loop = LoopRunning, thread = True,
       running = True, futures = (\<lambda>_. FPending), next_future = 0, sent = [] \<rparr>"
  by (simp add: attached_bridge_def init_bridge_def start_def run_server_def)

lemma begin_attached:
  "send_command_begin attached_bridge action params =
     (Waiting ''cmd-1'' 0,
      attached_bridge\<lparr>command_id := 1, futures := (\<lambda>_. FPending), next_future := 1,
        pending_commands := [(''cmd-1'', 0)],
        sent := [JDict [(''id'', JStr ''cmd-1''), (''action'', JStr action),
                        (''params'', JDict (case params of None \<Rightarrow> [] | Some d \<Rightarrow> d))]]\<rparr>)"
  by (simp add: attached_bridge_eq send_command_begin_def incr_command_id_def format_cmd_id_def
      create_future_def str_int_1 Let_def fun_upd_idem)


lemma waiting_bridge_eq:
  "waiting_bridge =
     attached_bridge\<lparr>command_id := 1, futures := (\<lambda>_. FPending), next_future := 1,
        pending_commands := [(''cmd-1'', 0)],
        sent := [JDict [(''id'', JStr ''cmd-1''), (''action'', JStr ''click''), (''params'', JDict [])]]\<rparr>"
  by (simp add: waiting_bridge_def begin_attached)

lemma begin_click_attached:
  "send_command_begin attached_bridge ''click'' None = (Waiting ''cmd-1'' 0, waiting_bridge)"
  by (simp add: waiting_bridge_eq begin_attached)

lemma second_begin:
  "send_command_begin (run_ops waiting_bridge [OpFinish ''cmd-1'' 0]) ''scroll'' None =
     (Waiting ''cmd-2'' 1,
      snd (send_command_begin (run_ops waiting_bridge [OpFinish ''cmd-1'' 0]) ''scroll'' None))"
  by (simp add: waiting_bridge_eq attached_bridge_eq send_command_finish_def send_command_begin_def
      incr_command_id_def format_cmd_id_def create_future_def str_int_2 Let_def)

lemma agent_bridge [simp]: "bridge agent = Some 0"
  by (simp add: agent_def)

lemma attached_process_simps [simp]:
  "bridges attached_process r = attached_bridge"
  "visual_log attached_process = []"
  "browser_available attached_process agent"
  by (simp_all add: attached_process_def browser_available_def agent_def attached_bridge_eq)

lemma fresh_process_simps [simp]:
  "bridges fresh_process r = init_bridge ''127.0.0.1'' 9333"
  "visual_log fresh_process = []"
  "\<not> browser_available fresh_process agent"
  "websockets fresh_process"
  "bridge_global fresh_process = None"
  "n_bridges fresh_process = 0"
  by (simp_all add: fresh_process_def browser_available_def agent_def init_bridge_def)

lemma send_attached_reply:
  "dict_get d ''id'' = JStr ''cmd-1'' \<Longrightarrow> dict_get d ''type'' \<noteq> JStr ''handshake'' \<Longrightarrow>
   fst (send_command attached_bridge action params [EvFrame (Inr (JDict d))]) = Inr d"
  by (simp add: send_command_def begin_attached future_done_def loop_event_frame
      handle_message_def send_command_finish_def Let_def)

lemma send_attached_timeout:
  "fst (send_command attached_bridge action params []) = Inr (error_response ''Command timed out'')"
  by (simp add: send_command_def begin_attached send_command_finish_def)

lemma send_attached_sent:
  "sent (snd (send_command attached_bridge action params evs)) =
     [JDict [(''id'', JStr ''cmd-1''), (''action'', JStr action),
             (''params'', JDict (case params of None \<Rightarrow> [] | Some d \<Rightarrow> d))]]"
  by (simp add: send_command_def begin_attached)


section \<open>Facts about the routing engine and the module variable\<close>







section \<open>Claims about the bridge\<close>







text \<open>
  C4, where the code departs from the claim. A frame that is valid JSON but not an object
  makes \<^verbatim>\<open>_handle_message\<close> raise AttributeError; the handler then leaves its loop,
  the frames that follow are never handled, and the \<^verbatim>\<open>finally\<close> block disconnects.
\<close>

theorem non_object_frame_ends_connection:
  "handle_message b (Inr (JList xs)) = (Some AttributeError, b) \<and>
   handle_client b websocket (Inr (JList xs) # frames) =
     handle_client_finally (b\<lparr>client := Some websocket, connected := True\<rparr>)"
  by (simp add: handle_message_def handle_client_def)

theorem non_object_frame_ends_connection_witness:
  "handle_message waiting_bridge (Inr (JList [])) = (Some AttributeError, waiting_bridge) \<and>
   \<not> connected (handle_client waiting_bridge 0
        [Inr (JList []), Inr (JDict [(''id'', JStr ''cmd-1''), (''success'', JBool True)])]) \<and>
   futures (handle_client waiting_bridge 0
        [Inr (JList []), Inr (JDict [(''id'', JStr ''cmd-1''), (''success'', JBool True)])]) 0
     = FException ''Extension disconnected''"
  using non_object_frame_ends_connection [where b = waiting_bridge and xs = "[]" and websocket = 0
      and frames = "[Inr (JDict [(''id'', JStr ''cmd-1''), (''success'', JBool True)])]"]
  by (simp add: finally_futures) (simp add: waiting_bridge_eq)

text \<open>
  C9, as amended. When the allocation steps of different calls do not interleave
  (each call runs lines 161 and 162 without another caller in between), the counter grows
  with every allocation, and a later call gets an id different from every earlier one.
\<close>

theorem sequential_ids_increase:
  assumes "send_command_begin b action params = (Waiting k f, b1)"
    and "send_command_begin (run_ops b1 ops) action' params' = (Waiting k' f', b2)"
  shows "k = ''cmd-'' @ str_int (command_id b1) \<and> k' = ''cmd-'' @ str_int (command_id b2) \<and>
         command_id b < command_id b1 \<and> command_id b1 < command_id b2 \<and> k \<noteq> k'"
proof -
  from begin_waiting [OF assms(1)]
  have k: "k = ''cmd-'' @ str_int (command_id b1)" and c: "command_id b1 = command_id b + 1"
    by simp_all
  from begin_waiting [OF assms(2)]
  have k': "k' = ''cmd-'' @ str_int (command_id b2)"
    and c': "command_id b2 = command_id (run_ops b1 ops) + 1"
    by simp_all
  from run_ops_command_id [of b1 ops] c' have lt: "command_id b1 < command_id b2" by simp
  then have "k \<noteq> k'" unfolding k k' by (intro cmd_key_neq) simp
  with k k' c lt show ?thesis by simp
qed

theorem sequential_ids_increase_witness:
  "send_command_begin attached_bridge ''click'' None = (Waiting ''cmd-1'' 0, waiting_bridge) \<and>
   fst (send_command_begin (run_ops waiting_bridge [OpFinish ''cmd-1'' 0]) ''scroll'' None)
     = Waiting ''cmd-2'' 1 \<and>
   command_id attached_bridge < command_id waiting_bridge \<and>
   command_id waiting_bridge
     < command_id (snd (send_command_begin (run_ops waiting_bridge [OpFinish ''cmd-1'' 0]) ''scroll'' None)) \<and>
   ''cmd-1'' \<noteq> ''cmd-2''"
proof -
  have f: "fst (send_command_begin (run_ops waiting_bridge [OpFinish ''cmd-1'' 0]) ''scroll'' None)
     = Waiting ''cmd-2'' 1"
    by (subst second_begin) simp
  from sequential_ids_increase [OF begin_click_attached second_begin] begin_click_attached f
  show ?thesis by blast
qed

text \<open>
  C9 as stated fails for concurrent callers: when two callers both run line 161 before
  either runs line 162, both read the same counter and get the same id.
\<close>

theorem concurrent_callers_share_an_id:
  "local_cmd_id (run_schedule attached_bridge [0, 1, 0, 1]) = [(0, ''cmd-2''), (1, ''cmd-2'')] \<and>
   \<not> distinct (map snd (local_cmd_id (run_schedule attached_bridge [0, 1, 0, 1])))"
  by (simp add: run_schedule_def alloc_step_def incr_command_id_def format_cmd_id_def
      attached_bridge_eq str_int_2)

section \<open>Claims about the routing engine\<close>

text \<open>
  C5. When the bridge is not available to the agent (browser support disabled, no bridge,
  or its peer not connected) or the foreground application is not a browser, click, type
  and scroll each return what the visual executor returns for the original arguments, call
  it exactly once, and leave every bridge object untouched: no command is sent.
\<close>

theorem no_bridge_command_without_browser:
  assumes "\<not> browser_available w a \<or> \<not> is_browser_active env"
  shows "aci_click env w a element_description num_clicks button_type hold_keys evs =
           (Inr (super_click env element_description num_clicks button_type hold_keys),
            w\<lparr>visual_log := visual_log w @ [VClick element_description num_clicks button_type hold_keys]\<rparr>) \<and>
         aci_type env w a text_arg element_description overwrite enter evs_find evs_type evs_enter =
           (Inr (super_type env text_arg element_description overwrite enter),
            w\<lparr>visual_log := visual_log w @ [VType text_arg element_description overwrite enter]\<rparr>) \<and>
         aci_scroll env w a element_description direction amount evs =
           (Inr (super_scroll env element_description direction amount),
            w\<lparr>visual_log := visual_log w @ [VScroll element_description direction amount]\<rparr>)"
proof -
  from assms have "\<not> should_use_browser env w a"
    by (auto simp: should_use_browser_def)
  then show ?thesis
    by (simp add: aci_click_def aci_type_def aci_scroll_def visual_click_def visual_type_def
        visual_scroll_def)
qed

theorem no_bridge_command_without_browser_witness:
  "\<not> is_browser_active (example_env False) \<and>
   aci_click (example_env False) attached_process agent ''submit'' 1 ''left'' [] [EvClose] =
     (Inr ''visual click: submit'',
      attached_process\<lparr>visual_log := [VClick ''submit'' 1 ''left'' []]\<rparr>) \<and>
   \<not> browser_available fresh_process agent \<and>
   aci_scroll (example_env True) fresh_process agent [] ''down'' 3 [EvClose] =
     (Inr ''visual scroll: down'', fresh_process\<lparr>visual_log := [VScroll [] ''down'' 3]\<rparr>) \<and>
   aci_type (example_env True) fresh_process agent ''hello'' ''search box'' False True [] [] [] =
     (Inr ''visual type: hello'',
      fresh_process\<lparr>visual_log := [VType ''hello'' ''search box'' False True]\<rparr>)"
proof -
  have a: "\<not> browser_available attached_process agent \<or> \<not> is_browser_active (example_env False)"
    by (simp add: example_env_def)
  have b: "\<not> browser_available fresh_process agent \<or> \<not> is_browser_active (example_env True)"
    by simp
  from no_bridge_command_without_browser [OF a, where element_description = "''submit''"
      and num_clicks = 1 and button_type = "''left''" and hold_keys = "[]" and evs = "[EvClose]"]
  have 1: "aci_click (example_env False) attached_process agent ''submit'' 1 ''left'' [] [EvClose] =
     (Inr ''visual click: submit'',
      attached_process\<lparr>visual_log := [VClick ''submit'' 1 ''left'' []]\<rparr>)"
    by (simp add: example_env_def)
  from no_bridge_command_without_browser [OF b, where element_description = "[]"
      and direction = "''down''" and amount = 3 and evs = "[EvClose]"]
  have 2: "aci_scroll (example_env True) fresh_process agent [] ''down'' 3 [EvClose] =
     (Inr ''visual scroll: down'', fresh_process\<lparr>visual_log := [VScroll [] ''down'' 3]\<rparr>)"
    by (simp add: example_env_def)
  from no_bridge_command_without_browser [OF b, where element_description = "''search box''"
      and text_arg = "''hello''" and overwrite = False and enter = True and evs_find = "[]"
      and evs_type = "[]" and evs_enter = "[]"]
  have 3: "aci_type (example_env True) fresh_process agent ''hello'' ''search box'' False True [] [] [] =
     (Inr ''visual type: hello'',
      fresh_process\<lparr>visual_log := [VType ''hello'' ''search box'' False True]\<rparr>)"
    by (simp add: example_env_def)
  from 1 2 3 show ?thesis by (simp add: example_env_def)
qed



text \<open>
  C7, as amended. Reading the page content returns \<^verbatim>\<open>None\<close> and leaves the bridge
  untouched when the foreground application is not a browser or the bridge is not
  available. The screenshot query returns \<^verbatim>\<open>None\<close> and leaves the bridge untouched
  when the bridge is not available; it does not ask for the foreground application.
\<close>

theorem content_and_screenshot_gates:
  "(\<not> should_use_browser env w a \<longrightarrow> get_page_content env w a evs = (Inr JNull, w)) \<and>
   (\<not> browser_available w a \<longrightarrow> get_browser_screenshot w a evs = (Inr JNull, w))"
  by (simp add: get_page_content_def get_browser_screenshot_def)

theorem content_and_screenshot_gates_witness:
  "\<not> should_use_browser (example_env False) attached_process agent \<and>
   get_page_content (example_env False) attached_process agent
       [EvFrame (Inr (JDict response_screenshot))] = (Inr JNull, attached_process) \<and>
   \<not> browser_available fresh_process agent \<and>
   get_browser_screenshot fresh_process agent [EvFrame (Inr (JDict response_screenshot))]
     = (Inr JNull, fresh_process)"
proof -
  have a: "\<not> should_use_browser (example_env False) attached_process agent"
    by (simp add: should_use_browser_def example_env_def)
  have b: "\<not> browser_available fresh_process agent" by simp
  from content_and_screenshot_gates [of "example_env False" attached_process agent
      "[EvFrame (Inr (JDict response_screenshot))]"] a
  have 1: "get_page_content (example_env False) attached_process agent
       [EvFrame (Inr (JDict response_screenshot))] = (Inr JNull, attached_process)"
    by blast
  from content_and_screenshot_gates [of "example_env False" fresh_process agent
      "[EvFrame (Inr (JDict response_screenshot))]"] b
  have 2: "get_browser_screenshot fresh_process agent [EvFrame (Inr (JDict response_screenshot))]
     = (Inr JNull, fresh_process)"
    by blast
  from a b 1 2 show ?thesis by simp
qed

text \<open>
  C7 as stated fails for the screenshot query: with the extension attached and a
  foreground application that is not a browser, it sends a screenshot command and
  returns the image the extension answers with.
\<close>

theorem screenshot_ignores_foreground:
  "\<not> should_use_browser (example_env False) attached_process agent \<and>
   fst (get_browser_screenshot attached_process agent [EvFrame (Inr (JDict response_screenshot))])
     = Inr (JStr ''iVBOR'') \<and>
   sent (bridges (snd (get_browser_screenshot attached_process agent
                    [EvFrame (Inr (JDict response_screenshot))])) 0)
     = [JDict [(''id'', JStr ''cmd-1''), (''action'', JStr ''screenshot''), (''params'', JDict [])]]"
proof -
  have a: "\<not> should_use_browser (example_env False) attached_process agent"
    by (simp add: should_use_browser_def example_env_def)
  have r: "fst (screenshot attached_bridge [EvFrame (Inr (JDict response_screenshot))])
      = Inr response_screenshot"
    unfolding screenshot_def
    by (rule send_attached_reply) (simp_all add: response_screenshot_def dict_get_def)
  have s: "sent (snd (screenshot attached_bridge [EvFrame (Inr (JDict response_screenshot))]))
      = [JDict [(''id'', JStr ''cmd-1''), (''action'', JStr ''screenshot''), (''params'', JDict [])]]"
    unfolding screenshot_def by (simp add: send_attached_sent)
  obtain b1 where p: "screenshot attached_bridge [EvFrame (Inr (JDict response_screenshot))]
      = (Inr response_screenshot, b1)"
    using r by (cases "screenshot attached_bridge [EvFrame (Inr (JDict response_screenshot))]") simp
  with s have s1: "sent b1
      = [JDict [(''id'', JStr ''cmd-1''), (''action'', JStr ''screenshot''), (''params'', JDict [])]]"
    by simp
  have "get_browser_screenshot attached_process agent [EvFrame (Inr (JDict response_screenshot))]
      = (Inr (JStr ''iVBOR''), attached_process\<lparr>bridges := (bridges attached_process)(0 := b1)\<rparr>)"
    by (simp add: get_browser_screenshot_def store_bridge_def p)
       (simp add: response_screenshot_def dict_get_def dict_get_default_def)
  with a s1 show ?thesis by simp
qed

text \<open>
  C8. With the bridge unavailable \<^verbatim>\<open>goto\<close> returns the instruction that opens the
  address with the \<^verbatim>\<open>webbrowser\<close> module and touches nothing. Whatever the bridge
  answers, \<^verbatim>\<open>goto\<close> never calls the visual executor, and an instruction it returns is
  either that one or the fixed delay after a successful navigation.
\<close>

theorem goto_never_uses_visual_executor:
  "(\<not> browser_available w a \<longrightarrow> goto env w a url evs = (Inr (open_in_browser env url), w)) \<and>
   open_in_browser env url = ''import webbrowser; webbrowser.open('' @ repr env url @ '')'' \<and>
   visual_log (snd (goto env w a url evs)) = visual_log w \<and>
   (\<forall>s. fst (goto env w a url evs) = Inr s \<longrightarrow>
      s = open_in_browser env url \<or> s = ''import time; time.sleep(1.0)  # Navigation completed'')"
  by (auto simp: goto_def store_bridge_def open_in_browser_def split: option.splits prod.splits sum.splits)

theorem goto_never_uses_visual_executor_witness:
  "\<not> browser_available fresh_process agent \<and>
   goto (example_env True) fresh_process agent ''https://x'' [] =
     (Inr (''import webbrowser; webbrowser.open('' @ [CHR 0x27] @ ''https://x'' @ [CHR 0x27] @ '')''),
      fresh_process) \<and>
   fst (goto (example_env True) attached_process agent ''https://x'' []) =
     Inr (''import webbrowser; webbrowser.open('' @ [CHR 0x27] @ ''https://x'' @ [CHR 0x27] @ '')'') \<and>
   visual_log (snd (goto (example_env True) attached_process agent ''https://x'' [])) = []"
proof -
  have b: "\<not> browser_available fresh_process agent" by simp
  from goto_never_uses_visual_executor [of fresh_process agent "example_env True" "''https://x''" "[]"] b
  have 1: "goto (example_env True) fresh_process agent ''https://x'' [] =
     (Inr (''import webbrowser; webbrowser.open('' @ [CHR 0x27] @ ''https://x'' @ [CHR 0x27] @ '')''),
      fresh_process)"
    by (simp add: example_env_def)
  from goto_never_uses_visual_executor [of attached_process agent "example_env True" "''https://x''" "[]"]
  have 2: "visual_log (snd (goto (example_env True) attached_process agent ''https://x'' [])) = []"
    by simp
  have n: "fst (navigate attached_bridge ''https://x'' []) = Inr (error_response ''Command timed out'')"
    unfolding navigate_def by (rule send_attached_timeout)
  obtain b1 where p: "navigate attached_bridge ''https://x'' [] = (Inr (error_response ''Command timed out''), b1)"
    using n by (cases "navigate attached_bridge ''https://x'' []") simp
  have 3: "fst (goto (example_env True) attached_process agent ''https://x'' []) =
     Inr (''import webbrowser; webbrowser.open('' @ [CHR 0x27] @ ''https://x'' @ [CHR 0x27] @ '')'')"
    by (simp add: goto_def store_bridge_def p)
       (simp add: error_response_def dict_get_def open_in_browser_def example_env_def)
  from b 1 2 3 show ?thesis by simp
qed



end
